theory Spec2Isabelle
  imports Complex_Main
begin

section \<open>JavaScript values used by the monitor\<close>

text \<open>
  The extension computes with JavaScript numbers. A number is modelled as one of the
  three special values or a finite rational. Arithmetic on finite values is exact: the
  model idealises the rounding of binary doubles, which is the identity on integers of
  magnitude up to \<open>2^53\<close> and on the quotients used in the examples below. The two
  zeros of the doubles are one value \<open>Fin 0\<close>: they are equal under \<open>!==\<close>, they
  print alike, and the divisors of the program are the interval setting and a difference
  that is compared with 0 first.
\<close>

datatype jsnum = NaN | PInf | NInf | Fin rat

fun js_add :: "jsnum \<Rightarrow> jsnum \<Rightarrow> jsnum" where
  "js_add (Fin a) (Fin b) = Fin (a + b)"
| "js_add NaN _ = NaN"
| "js_add _ NaN = NaN"
| "js_add PInf NInf = NaN"
| "js_add NInf PInf = NaN"
| "js_add PInf _ = PInf"
| "js_add _ PInf = PInf"
| "js_add NInf _ = NInf"
| "js_add _ NInf = NInf"

fun js_sub :: "jsnum \<Rightarrow> jsnum \<Rightarrow> jsnum" where
  "js_sub (Fin a) (Fin b) = Fin (a - b)"
| "js_sub NaN _ = NaN"
| "js_sub _ NaN = NaN"
| "js_sub PInf PInf = NaN"
| "js_sub NInf NInf = NaN"
| "js_sub PInf _ = PInf"
| "js_sub _ PInf = NInf"
| "js_sub NInf _ = NInf"
| "js_sub _ NInf = PInf"

fun js_mul :: "jsnum \<Rightarrow> jsnum \<Rightarrow> jsnum" where
  "js_mul (Fin a) (Fin b) = Fin (a * b)"
| "js_mul NaN _ = NaN"
| "js_mul _ NaN = NaN"
| "js_mul PInf (Fin b) = (if b = 0 then NaN else if 0 < b then PInf else NInf)"
| "js_mul NInf (Fin b) = (if b = 0 then NaN else if 0 < b then NInf else PInf)"
| "js_mul (Fin a) PInf = (if a = 0 then NaN else if 0 < a then PInf else NInf)"
| "js_mul (Fin a) NInf = (if a = 0 then NaN else if 0 < a then NInf else PInf)"
| "js_mul PInf PInf = PInf"
| "js_mul NInf NInf = PInf"
| "js_mul PInf NInf = NInf"
| "js_mul NInf PInf = NInf"

text \<open>
  Division never raises in JavaScript: a finite non-zero value over zero is an infinity,
  zero over zero is \<open>NaN\<close>.
\<close>

fun js_div :: "jsnum \<Rightarrow> jsnum \<Rightarrow> jsnum" where
  "js_div (Fin a) (Fin b) =
     (if b = 0 then (if a = 0 then NaN else if 0 < a then PInf else NInf)
      else Fin (a / b))"
| "js_div NaN _ = NaN"
| "js_div _ NaN = NaN"
| "js_div (Fin a) PInf = Fin 0"
| "js_div (Fin a) NInf = Fin 0"
| "js_div PInf (Fin b) = (if 0 \<le> b then PInf else NInf)"
| "js_div NInf (Fin b) = (if 0 \<le> b then NInf else PInf)"
| "js_div PInf _ = NaN"
| "js_div NInf _ = NaN"

text \<open>The relational operators: every comparison with \<open>NaN\<close> is false.\<close>

fun js_lt :: "jsnum \<Rightarrow> jsnum \<Rightarrow> bool" where
  "js_lt (Fin a) (Fin b) = (a < b)"
| "js_lt NaN _ = False"
| "js_lt _ NaN = False"
| "js_lt _ NInf = False"
| "js_lt PInf _ = False"
| "js_lt NInf _ = True"
| "js_lt _ PInf = True"

definition js_ge :: "jsnum \<Rightarrow> jsnum \<Rightarrow> bool" where
  "js_ge a b = (a \<noteq> NaN \<and> b \<noteq> NaN \<and> \<not> js_lt a b)"

definition js_gt :: "jsnum \<Rightarrow> jsnum \<Rightarrow> bool" where
  "js_gt a b = js_lt b a"

text \<open>\<open>a !== b\<close> on numbers: \<open>NaN\<close> differs from everything, itself included.\<close>

definition js_strict_neq :: "jsnum \<Rightarrow> jsnum \<Rightarrow> bool" where
  "js_strict_neq a b = (a = NaN \<or> b = NaN \<or> a \<noteq> b)"

definition isNaN :: "jsnum \<Rightarrow> bool" where
  "isNaN x = (x = NaN)"

section \<open>Strings: trimming, splitting, parseInt\<close>

text \<open>
  A string is a list of 8-bit code units (the tables under /proc are ASCII). The
  character classes are those of ECMAScript restricted to this range: \<open>\w\<close> is
  \<open>[A-Za-z0-9_]\<close>, white space is TAB, LF, VT, FF, CR, SPACE and NBSP.
\<close>

definition is_digit :: "char \<Rightarrow> bool" where
  "is_digit c = (let n = (of_char c :: nat) in 48 \<le> n \<and> n \<le> 57)"

definition is_word :: "char \<Rightarrow> bool" where
  "is_word c = (let n = (of_char c :: nat) in
     (48 \<le> n \<and> n \<le> 57) \<or> (65 \<le> n \<and> n \<le> 90) \<or> n = 95 \<or> (97 \<le> n \<and> n \<le> 122))"

definition is_space :: "char \<Rightarrow> bool" where
  "is_space c = (let n = (of_char c :: nat) in (9 \<le> n \<and> n \<le> 13) \<or> n = 32 \<or> n = 160)"

definition LF :: char where
  "LF = CHR 0x0A"

text \<open>\<open>s.trim()\<close>\<close>

definition trim :: "string \<Rightarrow> string" where
  "trim s = rev (dropWhile is_space (rev (dropWhile is_space s)))"

text \<open>
  \<open>s.split(c)\<close> for a one-character separator: the pieces between the separators,
  empty pieces included; the empty string gives one empty piece.
\<close>

fun split_on :: "char \<Rightarrow> string \<Rightarrow> string list" where
  "split_on c [] = [[]]"
| "split_on c (x # xs) =
     (let r = split_on c xs in if x = c then [] # r else (x # hd r) # tl r)"

text \<open>
  \<open>s.split(/\W+/)\<close>: the separator is a maximal run of non-word characters. A string
  that begins (ends) with a separator has an empty first (last) piece; the empty string
  gives one empty piece.
\<close>

function split_nonword :: "string \<Rightarrow> string list" where
  "split_nonword s =
     (let tok = takeWhile is_word s; rest = dropWhile is_word s
      in if rest = [] then [tok]
         else tok # split_nonword (dropWhile (\<lambda>c. \<not> is_word c) rest))"
  by pat_completeness auto
termination
proof (relation "measure length")
  show "wf (measure length)" by simp
next
  fix s :: string and tok rest
  assume r: "rest = dropWhile is_word s" and ne: "rest \<noteq> []"
  from ne obtain c cs where rc: "rest = c # cs" by (cases rest) auto
  with r have "\<not> is_word c"
    by (metis hd_dropWhile list.sel(1) ne)
  then have "length (dropWhile (\<lambda>c. \<not> is_word c) rest) \<le> length cs"
    using rc by (simp add: length_dropWhile_le)
  also have "length cs < length rest" using rc by simp
  also have "length rest \<le> length s" using r by (simp add: length_dropWhile_le)
  finally show "(dropWhile (\<lambda>c. \<not> is_word c) rest, s) \<in> measure length" by simp
qed

declare split_nonword.simps [simp del]

text \<open>
  \<open>fields[i]\<close> where the value is only ever converted to a string: an index past the
  end reads \<open>undefined\<close>, whose string conversion is \<open>"undefined"\<close>.
\<close>

definition js_at :: "string list \<Rightarrow> nat \<Rightarrow> string" where
  "js_at xs i = (if i < length xs then xs ! i else ''undefined'')"

text \<open>
  \<open>Number.parseInt(s)\<close> with no radix: leading white space and one sign are skipped,
  a prefix \<open>0x\<close> or \<open>0X\<close> selects radix 16, and the longest run of digits of the
  radix is read; no digit at all gives \<open>NaN\<close>. Anything after the digits is ignored.
  The value is the exact integer; the engine rounds an integer above \<open>2^53\<close> to the
  nearest double.
\<close>

definition digit_value :: "char \<Rightarrow> nat" where
  "digit_value c = (let n = (of_char c :: nat) in
     if 48 \<le> n \<and> n \<le> 57 then n - 48
     else if 97 \<le> n \<and> n \<le> 122 then n - 87
     else if 65 \<le> n \<and> n \<le> 90 then n - 55
     else 36)"

definition is_radix_digit :: "nat \<Rightarrow> char \<Rightarrow> bool" where
  "is_radix_digit R c = (digit_value c < R)"

definition digits_value :: "nat \<Rightarrow> string \<Rightarrow> nat" where
  "digits_value R Z = foldl (\<lambda>acc c. acc * R + digit_value c) 0 Z"

definition parseInt :: "string \<Rightarrow> jsnum" where
  "parseInt inputString =
     (let S = dropWhile is_space inputString;
          sign = (if S \<noteq> [] \<and> hd S = CHR ''-'' then - 1 else 1 :: int);
          S1 = (if S \<noteq> [] \<and> (hd S = CHR ''+'' \<or> hd S = CHR ''-'') then tl S else S);
          hex = (take 2 S1 = ''0x'' \<or> take 2 S1 = ''0X'');
          R = (if hex then 16 else 10);
          S2 = (if hex then drop 2 S1 else S1);
          Z = takeWhile (is_radix_digit R) S2
      in if Z = [] then NaN else Fin (of_int (sign * int (digits_value R Z))))"

section \<open>Module state\<close>

text \<open>
  The four module-level variables of extension.js, the fields \<open>_timeout\<close>,
  \<open>_refresh_interval\<close> and \<open>_indicator\<close> of the extension object (written here
  without the underscore, as are the methods \<open>_setupTimer\<close> and \<open>_refresh\<close>), the
  timeouts registered with the GLib main loop (source id and interval in seconds), and
  what was written with \<open>console.error\<close>. An absent panel indicator is \<open>None\<close>; a
  present one carries its label text.
\<close>

datatype io_error = FileError | DecodeError

record ssm_state =
  lastTotalNetDownBytes :: jsnum
  lastTotalNetUpBytes :: jsnum
  lastCPUUsed :: jsnum
  lastCPUTotal :: jsnum
  timeout :: "nat option"
  refresh_interval :: jsnum
  indicator :: "string option"
  glib_sources :: "(nat \<times> jsnum) list"
  glib_next_id :: nat
  console :: "io_error list"

section \<open>getCurrentNetSpeed\<close>

definition virtual_prefixes :: "string list" where
  "virtual_prefixes = [''ifb'', ''lxdbr'', ''virbr'', ''br'', ''vnet'', ''tun'', ''tap'']"

text \<open>
  \<open>iface.match(/^(ifb|lxdbr|virbr|br|vnet|tun|tap)[0-9]+/)\<close>: the pattern is anchored
  at the start only, so it matches when one of the prefixes is followed by a digit.
\<close>

definition match_virtual :: "string \<Rightarrow> bool" where
  "match_virtual iface =
     list_ex (\<lambda>p. take (length p) iface = p \<and>
                  (case drop (length p) iface of [] \<Rightarrow> False | c # _ \<Rightarrow> is_digit c))
       virtual_prefixes"

text \<open>The body of the loop over the lines, on the pair of running totals.\<close>

definition net_line :: "jsnum \<times> jsnum \<Rightarrow> string \<Rightarrow> jsnum \<times> jsnum" where
  "net_line acc line =
     (let fields = split_nonword (trim line)
      in if length fields \<le> 2 then acc
         else
           let iface = js_at fields 0;
               down = parseInt (js_at fields 1);
               up = parseInt (js_at fields 9)
           in if iface = ''lo'' \<or> match_virtual iface \<or> isNaN down \<or> isNaN up then acc
              else (js_add (fst acc) down, js_add (snd acc) up))"

definition net_totals :: "string \<Rightarrow> jsnum \<times> jsnum" where
  "net_totals contentStr = foldl net_line (Fin 0, Fin 0) (split_on LF contentStr)"

record netSpeed =
  down :: jsnum
  up :: jsnum

text \<open>
  The file read is the argument: \<open>Inl e\<close> when loading or decoding /proc/net/dev throws
  (the \<open>catch\<close> logs and falls through to the \<open>return\<close>), \<open>Inr\<close> the text otherwise.
\<close>

definition getCurrentNetSpeed ::
  "io_error + string \<Rightarrow> jsnum \<Rightarrow> ssm_state \<Rightarrow> netSpeed \<times> ssm_state" where
  "getCurrentNetSpeed content refreshInterval st =
     (case content of
        Inl e \<Rightarrow> (\<lparr>down = Fin 0, up = Fin 0\<rparr>, st\<lparr>console := console st @ [e]\<rparr>)
      | Inr contentStr \<Rightarrow>
          let totalDownBytes = fst (net_totals contentStr);
              totalUpBytes = snd (net_totals contentStr);
              d = (if js_strict_neq (lastTotalNetDownBytes st) (Fin 0)
                   then js_div (js_sub totalDownBytes (lastTotalNetDownBytes st)) refreshInterval
                   else Fin 0);
              u = (if js_strict_neq (lastTotalNetUpBytes st) (Fin 0)
                   then js_div (js_sub totalUpBytes (lastTotalNetUpBytes st)) refreshInterval
                   else Fin 0)
          in (\<lparr>down = d, up = u\<rparr>,
              st\<lparr>lastTotalNetDownBytes := totalDownBytes,
                 lastTotalNetUpBytes := totalUpBytes\<rparr>))"

section \<open>getCurrentCPUUsage\<close>

text \<open>
  Only the first line of /proc/stat is read. \<open>cpu_counters\<close> is the parsing half of the
  function: the pair \<open>(used, total)\<close> when the line is accepted, nothing otherwise.
\<close>

definition cpu_counters :: "string \<Rightarrow> (jsnum \<times> jsnum) option" where
  "cpu_counters contentStr =
     (let firstLine = hd (split_on LF contentStr);
          fields = split_nonword (trim firstLine)
      in if js_at fields 0 = ''cpu'' \<and> 5 \<le> length fields then
           let user = parseInt (js_at fields 1);
               nice = parseInt (js_at fields 2);
               sys = parseInt (js_at fields 3);
               idle = parseInt (js_at fields 4);
               used = js_add (js_add user nice) sys;
               total = js_add used idle
           in Some (used, total)
         else None)"

text \<open>
  The two assignments to the module variables follow the one-statement \<open>if\<close>, so they
  run whenever the line is accepted.
\<close>

definition getCurrentCPUUsage :: "io_error + string \<Rightarrow> ssm_state \<Rightarrow> jsnum \<times> ssm_state" where
  "getCurrentCPUUsage content st =
     (case content of
        Inl e \<Rightarrow> (Fin 0, st\<lparr>console := console st @ [e]\<rparr>)
      | Inr contentStr \<Rightarrow>
          (case cpu_counters contentStr of
             None \<Rightarrow> (Fin 0, st)
           | Some counters \<Rightarrow>
               let used = fst counters;
                   total = snd counters;
                   usage = (if js_strict_neq (js_sub total (lastCPUTotal st)) (Fin 0)
                            then js_div (js_sub used (lastCPUUsed st))
                                        (js_sub total (lastCPUTotal st))
                            else Fin 0)
               in (usage, st\<lparr>lastCPUTotal := total, lastCPUUsed := used\<rparr>)))"

section \<open>getMemoryInfo\<close>

record memInfo =
  total :: jsnum
  avail :: jsnum
  swTotal :: jsnum
  swFree :: jsnum

definition mem_line :: "memInfo \<Rightarrow> string \<Rightarrow> memInfo" where
  "mem_line mem line =
     (let f = split_nonword (trim line)
      in if length f < 2 then mem
         else
           let v = parseInt (js_at f 1)
           in if js_at f 0 = ''MemTotal'' then mem\<lparr>total := v\<rparr>
              else if js_at f 0 = ''MemAvailable'' then mem\<lparr>avail := v\<rparr>
              else if js_at f 0 = ''SwapTotal'' then mem\<lparr>swTotal := v\<rparr>
              else if js_at f 0 = ''SwapFree'' then mem\<lparr>swFree := v\<rparr>
              else mem)"

definition getMemoryInfo :: "io_error + string \<Rightarrow> ssm_state \<Rightarrow> memInfo \<times> ssm_state" where
  "getMemoryInfo content st =
     (let mem = \<lparr>total = Fin 0, avail = Fin 0, swTotal = Fin 0, swFree = Fin 0\<rparr>
      in case content of
           Inl e \<Rightarrow> (mem, st\<lparr>console := console st @ [e]\<rparr>)
         | Inr contentStr \<Rightarrow> (foldl mem_line mem (split_on LF contentStr), st))"

section \<open>Formatting\<close>

text \<open>
  The decimal digits of a natural number, and \<open>padStart\<close> with the default filler.
\<close>

fun show_nat :: "nat \<Rightarrow> string" where
  "show_nat n =
     (if n < 10 then [char_of (48 + n)]
      else show_nat (n div 10) @ [char_of (48 + n mod 10)])"

declare show_nat.simps [simp del]

definition padStart :: "nat \<Rightarrow> string \<Rightarrow> string" where
  "padStart n s = replicate (n - length s) (CHR '' '') @ s"

text \<open>
  The string conversion of a finite number is modelled where it is plain decimal
  digits. For a magnitude of \<open>10^21\<close> or more the engine prints exponent notation from
  the binary representation; that conversion is the parameter \<open>P\<close> of the functions
  below, applied to the magnitude. No statement of this theory depends on it.
\<close>

type_synonym printer = "rat \<Rightarrow> string"

text \<open>
  \<open>x.toFixed(d)\<close>: the nearest integer to \<open>x * 10^d\<close>, the larger one on a tie, printed
  with \<open>d\<close> digits after the point.
\<close>

definition toFixed :: "printer \<Rightarrow> jsnum \<Rightarrow> nat \<Rightarrow> string" where
  "toFixed P v d =
     (case v of
        NaN \<Rightarrow> ''NaN''
      | PInf \<Rightarrow> ''Infinity''
      | NInf \<Rightarrow> ''-Infinity''
      | Fin x \<Rightarrow>
          let s = (if x < 0 then ''-'' else []);
              y = \<bar>x\<bar>
          in if 10 ^ 21 \<le> y then s @ P y
             else
               let n = nat \<lfloor>y * 10 ^ d + 1 / 2\<rfloor>;
                   m = show_nat n
               in if d = 0 then s @ m
                  else
                    let m' = replicate (d + 1 - length m) (CHR ''0'') @ m;
                        k = length m'
                    in s @ take (k - d) m' @ ''.'' @ drop (k - d) m')"

text \<open>\<open>Math.round\<close>: the nearest integer, the larger one on a tie.\<close>

fun js_round :: "jsnum \<Rightarrow> jsnum" where
  "js_round (Fin x) = Fin (of_int \<lfloor>x + 1 / 2\<rfloor>)"
| "js_round v = v"

text \<open>\<open>toString()\<close> of a number, modelled on the integers that \<open>Math.round\<close> returns.\<close>

definition js_toString :: "printer \<Rightarrow> jsnum \<Rightarrow> string" where
  "js_toString P v =
     (case v of
        NaN \<Rightarrow> ''NaN''
      | PInf \<Rightarrow> ''Infinity''
      | NInf \<Rightarrow> ''-Infinity''
      | Fin x \<Rightarrow>
          let s = (if x < 0 then ''-'' else []);
              y = \<bar>x\<bar>
          in if 10 ^ 21 \<le> y \<or> of_int \<lfloor>y\<rfloor> \<noteq> y then s @ P y
             else s @ show_nat (nat \<lfloor>y\<rfloor>))"

definition netSpeedUnits :: "string list" where
  "netSpeedUnits = [''B'', ''K'', ''M'', ''G'', ''T'', ''P'', ''E'', ''Z'', ''Y'']"

text \<open>The \<open>while\<close> loop of formatNetSpeed, on the pair \<open>(amount, ui)\<close>.\<close>

function scale_amount :: "jsnum \<Rightarrow> nat \<Rightarrow> jsnum \<times> nat" where
  "scale_amount amount ui =
     (if js_ge amount (Fin 1000) \<and> ui < length netSpeedUnits - 1
      then scale_amount (js_div amount (Fin 1000)) (ui + 1)
      else (amount, ui))"
  by pat_completeness auto
termination
  by (relation "measure (\<lambda>(amount, ui). length netSpeedUnits - 1 - ui)") auto

declare scale_amount.simps [simp del]

definition formatNetSpeed :: "printer \<Rightarrow> jsnum \<Rightarrow> bool \<Rightarrow> string" where
  "formatNetSpeed P amount full =
     (let scaled = scale_amount amount 0;
          amount' = fst scaled;
          ui = snd scaled;
          d = (if js_ge amount' (Fin 100) \<or> js_lt amount' (Fin (1 / 100)) then 0
               else if js_ge amount' (Fin 10) then 1 else 2)
      in padStart 4 (toFixed P amount' d) @ '' '' @ netSpeedUnits ! ui
           @ (if full then ''/s'' else []))"

definition formatUsage :: "printer \<Rightarrow> jsnum \<Rightarrow> bool \<Rightarrow> bool \<Rightarrow> string" where
  "formatUsage P val extra perc =
     padStart (if extra then 3 else 2) (js_toString P (js_round (js_mul val (Fin 100))))
       @ (if perc then ''%'' else [])"

section \<open>The extension: enable, disable, the timer and the tick\<close>

text \<open>
  The settings are read through \<open>this._prefs\<close> at every use; their current values are
  an argument of each operation. The operations are modelled for the time in which
  \<open>this._prefs\<close> is bound, from \<open>enable\<close> to \<open>disable\<close>. Panel registration,
  styling and the subscriptions to settings changes act on the shell only and are left
  out.
\<close>

record prefs =
  IS_CPU_USAGE_ENABLE :: bool
  IS_MEMORY_USAGE_ENABLE :: bool
  IS_SWAP_USAGE_ENABLE :: bool
  IS_DOWNLOAD_SPEED_ENABLE :: bool
  IS_UPLOAD_SPEED_ENABLE :: bool
  CPU_USAGE_TEXT :: string
  MEMORY_USAGE_TEXT :: string
  SWAP_USAGE_TEXT :: string
  DOWNLOAD_SPEED_TEXT :: string
  UPLOAD_SPEED_TEXT :: string
  ITEM_SEPARATOR :: string
  SHOW_EXTRA_SPACES :: bool
  SHOW_PERCENT_SIGN :: bool
  SHOW_FULL_NET_SPEED_UNIT :: bool
  REFRESH_INTERVAL :: jsnum

text \<open>What the three reads of a tick return.\<close>

record proc_files =
  net_dev :: "io_error + string"
  stat :: "io_error + string"
  meminfo :: "io_error + string"

text \<open>\<open>GLib.source_remove\<close> and \<open>GLib.timeout_add_seconds\<close> on the registered timeouts.\<close>

definition source_remove :: "nat \<Rightarrow> ssm_state \<Rightarrow> ssm_state" where
  "source_remove i st = st\<lparr>glib_sources := filter (\<lambda>s. fst s \<noteq> i) (glib_sources st)\<rparr>"

definition timeout_add_seconds :: "jsnum \<Rightarrow> ssm_state \<Rightarrow> nat \<times> ssm_state" where
  "timeout_add_seconds interval st =
     (glib_next_id st,
      st\<lparr>glib_sources := glib_sources st @ [(glib_next_id st, interval)],
         glib_next_id := glib_next_id st + 1\<rparr>)"

text \<open>\<open>if (this._timeout) GLib.source_remove(this._timeout)\<close>: a source id is truthy unless 0.\<close>

definition remove_timeout :: "ssm_state \<Rightarrow> ssm_state" where
  "remove_timeout st =
     (case timeout st of
        None \<Rightarrow> st
      | Some i \<Rightarrow> if i \<noteq> 0 then source_remove i st else st)"

definition setupTimer :: "prefs \<Rightarrow> ssm_state \<Rightarrow> ssm_state" where
  "setupTimer p st =
     (let st1 = remove_timeout st;
          st2 = st1\<lparr>refresh_interval := REFRESH_INTERVAL p\<rparr>;
          added = timeout_add_seconds (refresh_interval st2) st2
      in (snd added)\<lparr>timeout := Some (fst added)\<rparr>)"

definition enable :: "prefs \<Rightarrow> ssm_state \<Rightarrow> ssm_state" where
  "enable p st =
     (let st1 = st\<lparr>lastTotalNetDownBytes := Fin 0,
                   lastTotalNetUpBytes := Fin 0,
                   lastCPUUsed := Fin 0,
                   lastCPUTotal := Fin 0\<rparr>;
          st2 = st1\<lparr>indicator := Some ''Initializing...''\<rparr>
      in setupTimer p st2)"

definition disable :: "ssm_state \<Rightarrow> ssm_state" where
  "disable st = (remove_timeout st)\<lparr>timeout := None, indicator := None\<rparr>"

text \<open>
  The tick. The fragments are kept with the metric they report, in the order the source
  pushes them; the label shows the fragments joined by the separator.
\<close>

datatype metric = CPU | MEMORY | SWAP | DOWNLOAD | UPLOAD

datatype source_result = SOURCE_REMOVE | SOURCE_CONTINUE

fun join :: "string \<Rightarrow> string list \<Rightarrow> string" where
  "join sep [] = []"
| "join sep [x] = x"
| "join sep (x # y # ys) = x @ sep @ join sep (y # ys)"

definition cpu_items ::
  "printer \<Rightarrow> prefs \<Rightarrow> proc_files \<Rightarrow> ssm_state \<Rightarrow> (metric \<times> string) list \<times> ssm_state" where
  "cpu_items P p files st =
     (if IS_CPU_USAGE_ENABLE p then
        let r = getCurrentCPUUsage (stat files) st
        in ([(CPU, CPU_USAGE_TEXT p @ '' '' @
               formatUsage P (fst r) (SHOW_EXTRA_SPACES p) (SHOW_PERCENT_SIGN p))], snd r)
      else ([], st))"

definition mem_items :: "printer \<Rightarrow> prefs \<Rightarrow> memInfo \<Rightarrow> (metric \<times> string) list" where
  "mem_items P p mem =
     (if IS_MEMORY_USAGE_ENABLE p \<and> js_gt (total mem) (Fin 0) then
        [(MEMORY, MEMORY_USAGE_TEXT p @ '' '' @
            formatUsage P (js_div (js_sub (total mem) (avail mem)) (total mem))
              (SHOW_EXTRA_SPACES p) (SHOW_PERCENT_SIGN p))]
      else [])"

definition swap_items :: "printer \<Rightarrow> prefs \<Rightarrow> memInfo \<Rightarrow> (metric \<times> string) list" where
  "swap_items P p mem =
     (if IS_SWAP_USAGE_ENABLE p \<and> js_gt (swTotal mem) (Fin 0) then
        [(SWAP, SWAP_USAGE_TEXT p @ '' '' @
            formatUsage P (js_div (js_sub (swTotal mem) (swFree mem)) (swTotal mem))
              (SHOW_EXTRA_SPACES p) (SHOW_PERCENT_SIGN p))]
      else [])"

definition net_items ::
  "printer \<Rightarrow> prefs \<Rightarrow> proc_files \<Rightarrow> ssm_state \<Rightarrow> (metric \<times> string) list \<times> ssm_state" where
  "net_items P p files st =
     (if IS_DOWNLOAD_SPEED_ENABLE p \<or> IS_UPLOAD_SPEED_ENABLE p then
        let r = getCurrentNetSpeed (net_dev files) (refresh_interval st) st;
            net = fst r;
            full = SHOW_FULL_NET_SPEED_UNIT p
        in ((if IS_DOWNLOAD_SPEED_ENABLE p
             then [(DOWNLOAD, DOWNLOAD_SPEED_TEXT p @ '' '' @ formatNetSpeed P (down net) full)]
             else []) @
            (if IS_UPLOAD_SPEED_ENABLE p
             then [(UPLOAD, UPLOAD_SPEED_TEXT p @ '' '' @ formatNetSpeed P (up net) full)]
             else []),
            snd r)
      else ([], st))"

definition refresh_items ::
  "printer \<Rightarrow> prefs \<Rightarrow> proc_files \<Rightarrow> ssm_state \<Rightarrow> (metric \<times> string) list \<times> ssm_state" where
  "refresh_items P p files st =
     (let m = getMemoryInfo (meminfo files) st;
          mem = fst m;
          c = cpu_items P p files (snd m);
          n = net_items P p files (snd c)
      in (fst c @ mem_items P p mem @ swap_items P p mem @ fst n, snd n))"

definition refresh ::
  "printer \<Rightarrow> prefs \<Rightarrow> proc_files \<Rightarrow> ssm_state \<Rightarrow> source_result \<times> ssm_state" where
  "refresh P p files st =
     (case indicator st of
        None \<Rightarrow> (SOURCE_REMOVE, st)
      | Some _ \<Rightarrow>
          let r = refresh_items P p files st
          in (SOURCE_CONTINUE,
              (snd r)\<lparr>indicator := Some (join (ITEM_SEPARATOR p) (map snd (fst r)))\<rparr>))"

section \<open>Sample inputs\<close>

text \<open>Concrete settings, states and tables on which the theorems below are instantiated.\<close>

definition plain_printer :: printer where
  "plain_printer = (\<lambda>x. [])"

definition sample_prefs :: prefs where
  "sample_prefs =
     \<lparr>IS_CPU_USAGE_ENABLE = True, IS_MEMORY_USAGE_ENABLE = True, IS_SWAP_USAGE_ENABLE = True,
      IS_DOWNLOAD_SPEED_ENABLE = True, IS_UPLOAD_SPEED_ENABLE = True,
      CPU_USAGE_TEXT = ''C'', MEMORY_USAGE_TEXT = ''M'', SWAP_USAGE_TEXT = ''S'',
      DOWNLOAD_SPEED_TEXT = ''D'', UPLOAD_SPEED_TEXT = ''U'', ITEM_SEPARATOR = '' '',
      SHOW_EXTRA_SPACES = False, SHOW_PERCENT_SIGN = True, SHOW_FULL_NET_SPEED_UNIT = False,
      REFRESH_INTERVAL = Fin 5\<rparr>"

text \<open>A state in the middle of a run: one timer of 2 seconds, totals from earlier ticks.\<close>

definition running_state :: ssm_state where
  "running_state =
     \<lparr>lastTotalNetDownBytes = Fin 1000, lastTotalNetUpBytes = Fin 2000,
      lastCPUUsed = Fin 100, lastCPUTotal = Fin 200,
      timeout = Some 1, refresh_interval = Fin 2, indicator = Some ''C 50%'',
      glib_sources = [(1, Fin 2)], glib_next_id = 2, console = []\<rparr>"

definition net_table :: string where
  "net_table = ''lo: 900 9 0 0 0 0 0 0 900 9 0 0 0 0 0 0'' @ [LF] @
               ''eth0: 500 5 0 0 0 0 0 0 700 7 0 0 0 0 0 0'' @ [LF]"

definition cpu_table :: string where
  "cpu_table = ''cpu  100 0 0 100 0 0 0 0 0 0'' @ [LF] @ ''cpu0 100 0 0 100 0 0 0 0 0 0'' @ [LF]"

definition cpu_table_same_total :: string where
  "cpu_table_same_total = ''cpu  110 0 0 90 0 0 0 0 0 0'' @ [LF]"

text \<open>A machine without swap: /proc/meminfo has no swap lines.\<close>

definition mem_table :: string where
  "mem_table = ''MemTotal: 16000 kB'' @ [LF] @ ''MemAvailable: 4000 kB'' @ [LF]"

definition sample_files :: proc_files where
  "sample_files = \<lparr>net_dev = Inr net_table, stat = Inr cpu_table, meminfo = Inr mem_table\<rparr>"



text \<open>
  /proc/net/dev as the kernel prints it on a host with a Docker bridge, and the line of a
  VLAN interface.
\<close>

definition docker_line :: string where
  "docker_line = ''br-1a2b3c4d5e6f:     100       1    0    0    0     0          0         0      200       2    0    0    0     0       0          0''"

definition docker_table :: string where
  "docker_table =
     ''Inter-|   Receive                                                |  Transmit'' @ [LF] @
     '' face |bytes    packets errs drop fifo frame compressed multicast|bytes    packets errs drop fifo colls carrier compressed'' @ [LF] @
     ''    lo:     900       9    0    0    0     0          0         0      900       9    0    0    0     0       0          0'' @ [LF] @
     ''  eth0:    5000      50    0    0    0     0          0         0     7000      70    0    0    0     0       0          0'' @ [LF] @
     docker_line @ [LF]"

definition vlan_line :: string where
  "vlan_line = ''eth0.100:       7       1    0    0    0     0          0         0        9       2    0    0    0     0       0          0''"

section \<open>Basic facts about the readers\<close>

lemma net_totals_net_table: "net_totals net_table = (Fin 500, Fin 700)"
  by code_simp

lemma cpu_counters_cpu_table: "cpu_counters cpu_table = Some (Fin 100, Fin 200)"
  by code_simp

lemma cpu_counters_same_total: "cpu_counters cpu_table_same_total = Some (Fin 110, Fin 200)"
  by code_simp

text \<open>Both splits return at least one piece, so the first piece always exists.\<close>

lemma split_on_nonempty: "split_on c s \<noteq> []"
  by (induction s) (simp_all add: Let_def)

lemma split_nonword_nonempty: "split_nonword s \<noteq> []"
  by (subst split_nonword.simps) (simp add: Let_def)

text \<open>The loop body on the tokens of the line.\<close>

lemma net_line_tokens:
  "net_line acc l =
     (if length (split_nonword (trim l)) \<le> 2 then acc
      else if js_at (split_nonword (trim l)) 0 = ''lo''
              \<or> match_virtual (js_at (split_nonword (trim l)) 0)
              \<or> parseInt (js_at (split_nonword (trim l)) 1) = NaN
              \<or> parseInt (js_at (split_nonword (trim l)) 9) = NaN
           then acc
           else (js_add (fst acc) (parseInt (js_at (split_nonword (trim l)) 1)),
                 js_add (snd acc) (parseInt (js_at (split_nonword (trim l)) 9))))"
  by (simp add: net_line_def Let_def isNaN_def)

text \<open>
  The totals of every table are finite numbers: a field that does not parse is skipped,
  never added.
\<close>

lemma parseInt_cases: "parseInt s = NaN \<or> (\<exists>q. parseInt s = Fin q)"
  by (simp add: parseInt_def Let_def)

lemma net_line_finite: "\<exists>a' b'. net_line (Fin a, Fin b) l = (Fin a', Fin b')"
  using parseInt_cases [of "js_at (split_nonword (trim l)) 1"]
    parseInt_cases [of "js_at (split_nonword (trim l)) 9"]
  by (auto simp: net_line_tokens)

lemma foldl_net_line_finite: "\<exists>a' b'. foldl net_line (Fin a, Fin b) ls = (Fin a', Fin b')"
proof (induction ls arbitrary: a b)
  case Nil
  show ?case by simp
next
  case (Cons l ls)
  obtain a1 b1 where "net_line (Fin a, Fin b) l = (Fin a1, Fin b1)"
    using net_line_finite by blast
  then show ?case using Cons.IH [of a1 b1] by simp
qed

lemma net_totals_finite: "\<exists>cd cu. net_totals c = (Fin cd, Fin cu)"
  unfolding net_totals_def by (rule foldl_net_line_finite)

text \<open>The unit index stays inside \<open>netSpeedUnits\<close>.\<close>

lemma scale_amount_index: "ui \<le> 8 \<Longrightarrow> snd (scale_amount amount ui) \<le> 8"
proof (induction amount ui rule: scale_amount.induct)
  case (1 amount ui)
  show ?case
  proof (cases "js_ge amount (Fin 1000) \<and> ui < length netSpeedUnits - 1")
    case True
    then have step: "scale_amount amount ui = scale_amount (js_div amount (Fin 1000)) (ui + 1)"
      by (subst scale_amount.simps) auto
    from True have "ui + 1 \<le> 8" by (simp add: netSpeedUnits_def)
    with True "1.IH" show ?thesis unfolding step by blast
  next
    case False
    then have "scale_amount amount ui = (amount, ui)"
      by (subst scale_amount.simps) auto
    with "1.prems" show ?thesis by simp
  qed
qed

lemma getCurrentNetSpeed_Inr:
  "getCurrentNetSpeed (Inr c) ri st =
     (\<lparr>down = (if js_strict_neq (lastTotalNetDownBytes st) (Fin 0)
               then js_div (js_sub (fst (net_totals c)) (lastTotalNetDownBytes st)) ri
               else Fin 0),
       up = (if js_strict_neq (lastTotalNetUpBytes st) (Fin 0)
             then js_div (js_sub (snd (net_totals c)) (lastTotalNetUpBytes st)) ri
             else Fin 0)\<rparr>,
      st\<lparr>lastTotalNetDownBytes := fst (net_totals c),
         lastTotalNetUpBytes := snd (net_totals c)\<rparr>)"
  by (simp add: getCurrentNetSpeed_def Let_def)

lemma getCurrentNetSpeed_Inl:
  "getCurrentNetSpeed (Inl e) ri st =
     (\<lparr>down = Fin 0, up = Fin 0\<rparr>, st\<lparr>console := console st @ [e]\<rparr>)"
  by (simp add: getCurrentNetSpeed_def)

lemma getCurrentCPUUsage_Some:
  "cpu_counters c = Some (used, tot) \<Longrightarrow>
   getCurrentCPUUsage (Inr c) st =
     ((if js_strict_neq (js_sub tot (lastCPUTotal st)) (Fin 0)
       then js_div (js_sub used (lastCPUUsed st)) (js_sub tot (lastCPUTotal st))
       else Fin 0),
      st\<lparr>lastCPUTotal := tot, lastCPUUsed := used\<rparr>)"
  by (simp add: getCurrentCPUUsage_def Let_def)



lemma enable_resets:
  "lastTotalNetDownBytes (enable p st) = Fin 0"
  "lastTotalNetUpBytes (enable p st) = Fin 0"
  "lastCPUUsed (enable p st) = Fin 0"
  "lastCPUTotal (enable p st) = Fin 0"
  by (simp_all add: enable_def setupTimer_def timeout_add_seconds_def remove_timeout_def
        source_remove_def Let_def split: option.splits)

section \<open>The first sample after a reset\<close>

text \<open>
  C1 (as amended). In a state whose four previous values are 0, as \<open>enable\<close> leaves
  them, a successful network sample yields rate 0 in both directions whatever the
  counters are, and stores the current totals as the new previous values. The CPU
  reader has no warm-up branch: its first sample is \<open>used / total\<close> of the cumulative
  counters it has just read (and 0 when \<open>total\<close> is 0), and it stores the current
  \<open>used\<close> and \<open>total\<close>.
\<close>

theorem first_sample_after_reset:
  assumes "lastTotalNetDownBytes st = Fin 0" and "lastTotalNetUpBytes st = Fin 0"
    and "lastCPUUsed st = Fin 0" and "lastCPUTotal st = Fin 0"
  shows "getCurrentNetSpeed (Inr c) ri st =
           (\<lparr>down = Fin 0, up = Fin 0\<rparr>,
            st\<lparr>lastTotalNetDownBytes := fst (net_totals c),
               lastTotalNetUpBytes := snd (net_totals c)\<rparr>)
         \<and> (cpu_counters c' = Some (Fin used, Fin tot) \<longrightarrow>
              getCurrentCPUUsage (Inr c') st =
                ((if tot = 0 then Fin 0 else Fin (used / tot)),
                 st\<lparr>lastCPUTotal := Fin tot, lastCPUUsed := Fin used\<rparr>))"
  using assms
  by (simp add: getCurrentNetSpeed_Inr getCurrentCPUUsage_Some js_strict_neq_def)

theorem first_sample_after_reset_witness:
  "getCurrentNetSpeed (Inr net_table) (Fin 5) (enable sample_prefs (disable running_state)) =
     (\<lparr>down = Fin 0, up = Fin 0\<rparr>,
      (enable sample_prefs (disable running_state))\<lparr>lastTotalNetDownBytes := Fin 500,
         lastTotalNetUpBytes := Fin 700\<rparr>)
   \<and> getCurrentCPUUsage (Inr cpu_table) (enable sample_prefs (disable running_state)) =
       (Fin (1 / 2),
        (enable sample_prefs (disable running_state))\<lparr>lastCPUTotal := Fin 200, lastCPUUsed := Fin 100\<rparr>)"
  using first_sample_after_reset [of "enable sample_prefs (disable running_state)" net_table "Fin 5"
      cpu_table 100 200]
  by (simp add: enable_resets net_totals_net_table cpu_counters_cpu_table)

text \<open>
  The claim as stated fails on the CPU side: right after \<open>enable\<close>, with the first line
  \<open>cpu  100 0 0 100 ...\<close> (used 100 of 200 ticks), the usage returned is 1/2, not 0.
\<close>

theorem first_cpu_sample_counterexample:
  "lastCPUUsed (enable sample_prefs (disable running_state)) = Fin 0
   \<and> lastCPUTotal (enable sample_prefs (disable running_state)) = Fin 0
   \<and> fst (getCurrentCPUUsage (Inr cpu_table) (enable sample_prefs (disable running_state))) = Fin (1 / 2)
   \<and> fst (getCurrentCPUUsage (Inr cpu_table) (enable sample_prefs (disable running_state))) \<noteq> Fin 0"
  by (simp add: enable_resets getCurrentCPUUsage_Some [OF cpu_counters_cpu_table]
        js_strict_neq_def)

section \<open>A counter that decreases\<close>

text \<open>
  C2 (as amended). When the current total of a direction is strictly below the stored
  previous total, which is not the sentinel 0, and the interval is positive, the rate
  of that direction is \<open>(current - previous) / interval\<close>, a strictly negative number:
  the estimator neither clamps it to 0 nor treats the sample as a warm-up. The current
  totals are stored as the new previous values.
\<close>

theorem counter_decrease_rate:
  assumes "net_totals c = (Fin cd, Fin cu)" and "0 < r"
  shows "(lastTotalNetDownBytes st = Fin pd \<and> pd \<noteq> 0 \<and> cd < pd \<longrightarrow>
            down (fst (getCurrentNetSpeed (Inr c) (Fin r) st)) = Fin ((cd - pd) / r)
            \<and> (cd - pd) / r < 0)
         \<and> (lastTotalNetUpBytes st = Fin pu \<and> pu \<noteq> 0 \<and> cu < pu \<longrightarrow>
            up (fst (getCurrentNetSpeed (Inr c) (Fin r) st)) = Fin ((cu - pu) / r)
            \<and> (cu - pu) / r < 0)
         \<and> lastTotalNetDownBytes (snd (getCurrentNetSpeed (Inr c) (Fin r) st)) = Fin cd
         \<and> lastTotalNetUpBytes (snd (getCurrentNetSpeed (Inr c) (Fin r) st)) = Fin cu"
  using assms
  by (simp add: getCurrentNetSpeed_Inr js_strict_neq_def divide_neg_pos)

theorem counter_decrease_rate_witness:
  "down (fst (getCurrentNetSpeed (Inr net_table) (Fin 2) running_state)) = Fin (- 250)
   \<and> up (fst (getCurrentNetSpeed (Inr net_table) (Fin 2) running_state)) = Fin (- 650)
   \<and> lastTotalNetDownBytes (snd (getCurrentNetSpeed (Inr net_table) (Fin 2) running_state)) = Fin 500
   \<and> lastTotalNetUpBytes (snd (getCurrentNetSpeed (Inr net_table) (Fin 2) running_state)) = Fin 700"
  using counter_decrease_rate [of net_table 500 700 2 running_state 1000 2000]
  by (simp add: net_totals_net_table running_state_def)

text \<open>
  The claim as stated fails: with 1000 bytes stored, a table that totals 500 bytes and
  an interval of 2 seconds, the download rate is -250.
\<close>

theorem counter_decrease_counterexample:
  "fst (net_totals net_table) = Fin 500
   \<and> lastTotalNetDownBytes running_state = Fin 1000
   \<and> down (fst (getCurrentNetSpeed (Inr net_table) (Fin 2) running_state)) = Fin (- 250)
   \<and> js_lt (down (fst (getCurrentNetSpeed (Inr net_table) (Fin 2) running_state))) (Fin 0)"
  by (simp add: getCurrentNetSpeed_Inr net_totals_net_table running_state_def js_strict_neq_def)

section \<open>An interval that is zero or negative\<close>

text \<open>
  C5 (as amended). getCurrentNetSpeed has no guard on the interval. For an interval
  that is zero or negative, a direction whose stored previous total is the sentinel 0
  has rate 0; otherwise the division is carried out: with interval 0 the rate is
  \<open>NaN\<close>, \<open>Infinity\<close> or \<open>-Infinity\<close> as the total stayed, rose or fell, and with a
  negative interval it is the finite quotient \<open>(current - previous) / interval\<close>. The
  stored previous totals are updated to the current totals in every case.
\<close>

theorem nonpositive_interval_rate:
  assumes "net_totals c = (Fin cd, Fin cu)"
    and "lastTotalNetDownBytes st = Fin pd" and "lastTotalNetUpBytes st = Fin pu"
    and "r \<le> 0"
  shows "getCurrentNetSpeed (Inr c) (Fin r) st =
           (\<lparr>down = (if pd = 0 then Fin 0
                     else if r = 0 then (if cd = pd then NaN else if pd < cd then PInf else NInf)
                     else Fin ((cd - pd) / r)),
             up = (if pu = 0 then Fin 0
                   else if r = 0 then (if cu = pu then NaN else if pu < cu then PInf else NInf)
                   else Fin ((cu - pu) / r))\<rparr>,
            st\<lparr>lastTotalNetDownBytes := Fin cd, lastTotalNetUpBytes := Fin cu\<rparr>)"
  using assms
  by (simp add: getCurrentNetSpeed_Inr js_strict_neq_def)

theorem nonpositive_interval_rate_witness:
  "getCurrentNetSpeed (Inr net_table) (Fin 0) running_state =
     (\<lparr>down = NInf, up = NInf\<rparr>,
      running_state\<lparr>lastTotalNetDownBytes := Fin 500, lastTotalNetUpBytes := Fin 700\<rparr>)"
  using nonpositive_interval_rate [of net_table 500 700 running_state 1000 2000 0]
  by (simp add: net_totals_net_table running_state_def)

text \<open>
  The claim as stated fails: with 1000 bytes stored, a table that totals 500 bytes and
  interval 0, the download rate is \<open>-Infinity\<close>, not 0.
\<close>

theorem zero_interval_counterexample:
  "lastTotalNetDownBytes running_state = Fin 1000
   \<and> fst (net_totals net_table) = Fin 500
   \<and> down (fst (getCurrentNetSpeed (Inr net_table) (Fin 0) running_state)) = NInf
   \<and> down (fst (getCurrentNetSpeed (Inr net_table) (Fin 0) running_state)) \<noteq> Fin 0"
  by (simp add: getCurrentNetSpeed_Inr net_totals_net_table running_state_def js_strict_neq_def)

section \<open>A CPU sample with no tick elapsed\<close>

text \<open>
  C4 (as amended). When the total tick count of an accepted CPU line equals the stored
  previous total, the usage reported is 0 and the stored previous-used value is
  overwritten with the current used value (the previous total is rewritten with the equal
  current total): the two assignments are outside the \<open>if\<close>.
\<close>

theorem zero_denominator_cpu:
  assumes "cpu_counters c = Some (used, Fin t)" and "lastCPUTotal st = Fin t"
  shows "getCurrentCPUUsage (Inr c) st =
           (Fin 0, st\<lparr>lastCPUTotal := Fin t, lastCPUUsed := used\<rparr>)
         \<and> lastCPUUsed (snd (getCurrentCPUUsage (Inr c) st)) = used"
  using assms
  by (simp add: getCurrentCPUUsage_Some js_strict_neq_def)

theorem zero_denominator_cpu_witness:
  "getCurrentCPUUsage (Inr cpu_table_same_total) running_state =
     (Fin 0, running_state\<lparr>lastCPUTotal := Fin 200, lastCPUUsed := Fin 110\<rparr>)
   \<and> lastCPUUsed (snd (getCurrentCPUUsage (Inr cpu_table_same_total) running_state)) = Fin 110"
  using zero_denominator_cpu [of cpu_table_same_total "Fin 110" 200 running_state]
  by (simp add: cpu_counters_same_total running_state_def)

text \<open>
  The claim as stated fails: with used 100 and total 200 stored, the line
  \<open>cpu  110 0 0 90 ...\<close> has total 200 again; the usage is 0 and the stored used value
  becomes 110.
\<close>

theorem zero_denominator_counterexample:
  "cpu_counters cpu_table_same_total = Some (Fin 110, Fin 200)
   \<and> lastCPUTotal running_state = Fin 200
   \<and> lastCPUUsed running_state = Fin 100
   \<and> fst (getCurrentCPUUsage (Inr cpu_table_same_total) running_state) = Fin 0
   \<and> lastCPUUsed (snd (getCurrentCPUUsage (Inr cpu_table_same_total) running_state)) = Fin 110
   \<and> lastCPUUsed (snd (getCurrentCPUUsage (Inr cpu_table_same_total) running_state))
       \<noteq> lastCPUUsed running_state"
  by (simp add: getCurrentCPUUsage_Some [OF cpu_counters_same_total] cpu_counters_same_total
        running_state_def js_strict_neq_def)

section \<open>A failed read of the network table\<close>

text \<open>
  C10. When reading /proc/net/dev throws, getCurrentNetSpeed returns the zero rate
  \<open>{down: 0, up: 0}\<close>, only logs the error, and leaves lastTotalNetDownBytes and
  lastTotalNetUpBytes as they were; the next successful tick therefore computes the same
  rates as it would have without the failed call, from the last totals read.
\<close>

theorem net_read_failure_keeps_totals:
  "getCurrentNetSpeed (Inl e) ri st =
     (\<lparr>down = Fin 0, up = Fin 0\<rparr>, st\<lparr>console := console st @ [e]\<rparr>)
   \<and> lastTotalNetDownBytes (snd (getCurrentNetSpeed (Inl e) ri st)) = lastTotalNetDownBytes st
   \<and> lastTotalNetUpBytes (snd (getCurrentNetSpeed (Inl e) ri st)) = lastTotalNetUpBytes st
   \<and> fst (getCurrentNetSpeed (Inr c) ri' (snd (getCurrentNetSpeed (Inl e) ri st)))
       = fst (getCurrentNetSpeed (Inr c) ri' st)"
  by (simp add: getCurrentNetSpeed_Inl getCurrentNetSpeed_Inr)

theorem net_read_failure_keeps_totals_witness:
  "getCurrentNetSpeed (Inl FileError) (Fin 2) running_state =
     (\<lparr>down = Fin 0, up = Fin 0\<rparr>, running_state\<lparr>console := [FileError]\<rparr>)
   \<and> lastTotalNetDownBytes (snd (getCurrentNetSpeed (Inl FileError) (Fin 2) running_state)) = Fin 1000
   \<and> lastTotalNetUpBytes (snd (getCurrentNetSpeed (Inl FileError) (Fin 2) running_state)) = Fin 2000
   \<and> fst (getCurrentNetSpeed (Inr net_table) (Fin 2)
             (snd (getCurrentNetSpeed (Inl FileError) (Fin 2) running_state)))
       = \<lparr>down = Fin (- 250), up = Fin (- 650)\<rparr>"
  using net_read_failure_keeps_totals [of FileError "Fin 2" running_state net_table "Fin 2"]
  by (simp add: getCurrentNetSpeed_Inr net_totals_net_table running_state_def js_strict_neq_def)

section \<open>Changing the refresh interval\<close>

text \<open>
  C3 (as amended). A change of the refresh interval runs \<open>_setupTimer\<close> only: it
  removes the old timeout, stores the new interval and registers a new timeout with it,
  and leaves the four previous values as they are, so the next tick is an ordinary
  differencing tick. Only \<open>enable\<close>, for instance after \<open>disable\<close>, sets the four
  previous values back to 0.
\<close>

theorem setupTimer_keeps_estimator_state:
  "lastTotalNetDownBytes (setupTimer p st) = lastTotalNetDownBytes st
   \<and> lastTotalNetUpBytes (setupTimer p st) = lastTotalNetUpBytes st
   \<and> lastCPUUsed (setupTimer p st) = lastCPUUsed st
   \<and> lastCPUTotal (setupTimer p st) = lastCPUTotal st
   \<and> refresh_interval (setupTimer p st) = REFRESH_INTERVAL p
   \<and> timeout (setupTimer p st) = Some (glib_next_id st)
   \<and> (glib_next_id st, REFRESH_INTERVAL p) \<in> set (glib_sources (setupTimer p st))
   \<and> lastTotalNetDownBytes (enable p (disable st)) = Fin 0
   \<and> lastTotalNetUpBytes (enable p (disable st)) = Fin 0
   \<and> lastCPUUsed (enable p (disable st)) = Fin 0
   \<and> lastCPUTotal (enable p (disable st)) = Fin 0
   \<and> glib_sources (setupTimer p st) =
       (case timeout st of
          None \<Rightarrow> glib_sources st
        | Some i \<Rightarrow> if i \<noteq> 0 then filter (\<lambda>s. fst s \<noteq> i) (glib_sources st)
                    else glib_sources st)
       @ [(glib_next_id st, REFRESH_INTERVAL p)]
   \<and> (\<forall>i. timeout st = Some i \<and> i \<noteq> 0 \<and> i \<noteq> glib_next_id st \<longrightarrow>
          i \<notin> fst ` set (glib_sources (setupTimer p st)))
   \<and> setupTimer p st =
       st\<lparr>glib_sources :=
            (case timeout st of
               None \<Rightarrow> glib_sources st
             | Some i \<Rightarrow> if i \<noteq> 0 then filter (\<lambda>s. fst s \<noteq> i) (glib_sources st)
                         else glib_sources st)
            @ [(glib_next_id st, REFRESH_INTERVAL p)],
          glib_next_id := glib_next_id st + 1,
          refresh_interval := REFRESH_INTERVAL p,
          timeout := Some (glib_next_id st)\<rparr>"
proof -
  have state: "setupTimer p st =
       st\<lparr>glib_sources :=
            (case timeout st of
               None \<Rightarrow> glib_sources st
             | Some i \<Rightarrow> if i \<noteq> 0 then filter (\<lambda>s. fst s \<noteq> i) (glib_sources st)
                         else glib_sources st)
            @ [(glib_next_id st, REFRESH_INTERVAL p)],
          glib_next_id := glib_next_id st + 1,
          refresh_interval := REFRESH_INTERVAL p,
          timeout := Some (glib_next_id st)\<rparr>"
    by (simp add: setupTimer_def timeout_add_seconds_def remove_timeout_def
          source_remove_def Let_def split: option.splits)
  have gone: "i \<notin> fst ` set (glib_sources (setupTimer p st))"
    if "timeout st = Some i" and "i \<noteq> 0" and "i \<noteq> glib_next_id st" for i
    unfolding state using that by auto
  then have g: "\<forall>i. timeout st = Some i \<and> i \<noteq> 0 \<and> i \<noteq> glib_next_id st \<longrightarrow>
                  i \<notin> fst ` set (glib_sources (setupTimer p st))"
    by blast
  have keep:
    "lastTotalNetDownBytes (setupTimer p st) = lastTotalNetDownBytes st"
    "lastTotalNetUpBytes (setupTimer p st) = lastTotalNetUpBytes st"
    "lastCPUUsed (setupTimer p st) = lastCPUUsed st"
    "lastCPUTotal (setupTimer p st) = lastCPUTotal st"
    "refresh_interval (setupTimer p st) = REFRESH_INTERVAL p"
    "timeout (setupTimer p st) = Some (glib_next_id st)"
    "(glib_next_id st, REFRESH_INTERVAL p) \<in> set (glib_sources (setupTimer p st))"
    "glib_sources (setupTimer p st) =
       (case timeout st of
          None \<Rightarrow> glib_sources st
        | Some i \<Rightarrow> if i \<noteq> 0 then filter (\<lambda>s. fst s \<noteq> i) (glib_sources st)
                    else glib_sources st)
       @ [(glib_next_id st, REFRESH_INTERVAL p)]"
    by (simp_all add: state)
  show ?thesis
    by (intro conjI) (fact keep enable_resets g state)+
qed

theorem setupTimer_keeps_estimator_state_witness:
  "lastTotalNetDownBytes (setupTimer sample_prefs running_state) = Fin 1000
   \<and> lastTotalNetUpBytes (setupTimer sample_prefs running_state) = Fin 2000
   \<and> lastCPUUsed (setupTimer sample_prefs running_state) = Fin 100
   \<and> lastCPUTotal (setupTimer sample_prefs running_state) = Fin 200
   \<and> refresh_interval (setupTimer sample_prefs running_state) = Fin 5
   \<and> timeout (setupTimer sample_prefs running_state) = Some 2
   \<and> glib_sources (setupTimer sample_prefs running_state) = [(2, Fin 5)]
   \<and> timeout running_state = Some 1
   \<and> glib_sources running_state = [(1, Fin 2)]
   \<and> (1::nat) \<notin> fst ` set (glib_sources (setupTimer sample_prefs running_state))"
  using setupTimer_keeps_estimator_state [of sample_prefs running_state]
  by (simp add: running_state_def sample_prefs_def setupTimer_def timeout_add_seconds_def
        remove_timeout_def source_remove_def Let_def)

text \<open>
  The claim as stated fails: in a running state with 1000 bytes stored, the interval
  change keeps the 1000, where \<open>disable\<close> followed by \<open>enable\<close> stores 0; the
  next tick after the interval change reports the rates -100 and -260, the next tick
  after \<open>disable\<close> and \<open>enable\<close> reports 0 and 0.
\<close>

theorem interval_change_counterexample:
  "lastTotalNetDownBytes (setupTimer sample_prefs running_state) = Fin 1000
   \<and> lastTotalNetDownBytes (enable sample_prefs (disable running_state)) = Fin 0
   \<and> lastTotalNetDownBytes (setupTimer sample_prefs running_state)
       \<noteq> lastTotalNetDownBytes (enable sample_prefs (disable running_state))
   \<and> fst (getCurrentNetSpeed (Inr net_table) (Fin 5) (setupTimer sample_prefs running_state))
       = \<lparr>down = Fin (- 100), up = Fin (- 260)\<rparr>
   \<and> fst (getCurrentNetSpeed (Inr net_table) (Fin 5)
             (enable sample_prefs (disable running_state)))
       = \<lparr>down = Fin 0, up = Fin 0\<rparr>"
proof -
  have s: "lastTotalNetDownBytes (setupTimer sample_prefs running_state) = Fin 1000"
    "lastTotalNetUpBytes (setupTimer sample_prefs running_state) = Fin 2000"
    by (simp_all add: running_state_def setupTimer_def timeout_add_seconds_def
          remove_timeout_def source_remove_def Let_def)
  show ?thesis
    by (simp add: s enable_resets getCurrentNetSpeed_Inr net_totals_net_table js_strict_neq_def)
qed

section \<open>The byte-rate formatter on the worked examples\<close>

text \<open>
  C7 (as amended). Under the stated scaling, decimal-place rule and left-padding of the
  number to width 4: formatNetSpeed(5000, false) is \<open>"5.00 K"\<close>,
  formatNetSpeed(999, false) is \<open>" 999 B"\<close> (the three digits padded to four
  characters), and formatNetSpeed(1500000, true) is \<open>"1.50 M/s"\<close>. The quotients
  5, 1500 and 1.5 are exact in binary floating point.
\<close>

theorem formatNetSpeed_examples:
  "formatNetSpeed P (Fin 5000) False = ''5.00 K''
   \<and> formatNetSpeed P (Fin 999) False = '' 999 B''
   \<and> formatNetSpeed P (Fin 1500000) True = ''1.50 M/s''"
  by code_simp

theorem formatNetSpeed_examples_witness:
  "formatNetSpeed plain_printer (Fin 5000) False = ''5.00 K''
   \<and> formatNetSpeed plain_printer (Fin 999) False = '' 999 B''
   \<and> formatNetSpeed plain_printer (Fin 1500000) True = ''1.50 M/s''"
  using formatNetSpeed_examples [of plain_printer] by simp

text \<open>The claim as stated fails on its second example: the result has a leading space.\<close>

theorem formatNetSpeed_999_counterexample:
  "formatNetSpeed plain_printer (Fin 999) False = '' 999 B''
   \<and> formatNetSpeed plain_printer (Fin 999) False \<noteq> ''999 B''"
  by code_simp

section \<open>Memory and swap ratios in the tick\<close>

lemma sample_facts:
  "meminfo sample_files = Inr mem_table"
  "stat sample_files = Inr cpu_table"
  "net_dev sample_files = Inr net_table"
  "indicator running_state = Some ''C 50%''"
  "lastTotalNetDownBytes running_state = Fin 1000"
  "lastTotalNetUpBytes running_state = Fin 2000"
  "lastCPUUsed running_state = Fin 100"
  "lastCPUTotal running_state = Fin 200"
  "refresh_interval running_state = Fin 2"
  "IS_CPU_USAGE_ENABLE sample_prefs"
  "IS_MEMORY_USAGE_ENABLE sample_prefs"
  "IS_SWAP_USAGE_ENABLE sample_prefs"
  "IS_DOWNLOAD_SPEED_ENABLE sample_prefs"
  "IS_UPLOAD_SPEED_ENABLE sample_prefs"
  "CPU_USAGE_TEXT sample_prefs = ''C''"
  "MEMORY_USAGE_TEXT sample_prefs = ''M''"
  "DOWNLOAD_SPEED_TEXT sample_prefs = ''D''"
  "UPLOAD_SPEED_TEXT sample_prefs = ''U''"
  "ITEM_SEPARATOR sample_prefs = '' ''"
  "\<not> SHOW_EXTRA_SPACES sample_prefs"
  "SHOW_PERCENT_SIGN sample_prefs"
  "\<not> SHOW_FULL_NET_SPEED_UNIT sample_prefs"
  by (simp_all add: sample_files_def running_state_def sample_prefs_def)

lemma getMemoryInfo_Inl:
  "getMemoryInfo (Inl e) st =
     (\<lparr>total = Fin 0, avail = Fin 0, swTotal = Fin 0, swFree = Fin 0\<rparr>,
      st\<lparr>console := console st @ [e]\<rparr>)"
  by (simp add: getMemoryInfo_def)

lemma getMemoryInfo_mem_table:
  "fst (getMemoryInfo (Inr mem_table) running_state) =
     \<lparr>total = Fin 16000, avail = Fin 4000, swTotal = Fin 0, swFree = Fin 0\<rparr>"
  by code_simp


lemma format_samples:
  "formatUsage plain_printer (Fin 0) False True = '' 0%''"
  "formatUsage plain_printer (Fin (3 / 4)) False True = ''75%''"
  "formatNetSpeed plain_printer (Fin (- 250)) False = ''-250 B''"
  "formatNetSpeed plain_printer (Fin (- 650)) False = ''-650 B''"
  by code_simp+


lemma items_filter_simps:
  "filter (\<lambda>i. fst i = MEMORY) (fst (cpu_items P p files st)) = []"
  "filter (\<lambda>i. fst i = SWAP) (fst (cpu_items P p files st)) = []"
  "filter (\<lambda>i. fst i = MEMORY) (fst (net_items P p files st)) = []"
  "filter (\<lambda>i. fst i = SWAP) (fst (net_items P p files st)) = []"
  "filter (\<lambda>i. fst i = MEMORY) (swap_items P p mem) = []"
  "filter (\<lambda>i. fst i = SWAP) (mem_items P p mem) = []"
  "filter (\<lambda>i. fst i = MEMORY) (mem_items P p mem) = mem_items P p mem"
  "filter (\<lambda>i. fst i = SWAP) (swap_items P p mem) = swap_items P p mem"
  by (simp_all add: cpu_items_def net_items_def mem_items_def swap_items_def Let_def)

text \<open>
  C9. In every tick the fragments of the output that report memory are: one fragment,
  the label followed by the formatted ratio \<open>(total - avail) / total\<close>, when memory
  display is enabled and the total read is strictly positive, and none otherwise;
  likewise for swap with \<open>(swTotal - swFree) / swTotal\<close>. In particular a total that
  reads as 0 gives no fragment, so the ratio is never formed with a zero divisor. The
  label shows exactly the fragments of the tick, joined by the separator.
\<close>

theorem ratio_reported_only_for_positive_total:
  "filter (\<lambda>i. fst i = MEMORY) (fst (refresh_items P p files st)) =
     (if IS_MEMORY_USAGE_ENABLE p \<and> js_gt (total (fst (getMemoryInfo (meminfo files) st))) (Fin 0)
      then [(MEMORY, MEMORY_USAGE_TEXT p @ '' '' @
              formatUsage P
                (js_div (js_sub (total (fst (getMemoryInfo (meminfo files) st)))
                                (avail (fst (getMemoryInfo (meminfo files) st))))
                        (total (fst (getMemoryInfo (meminfo files) st))))
                (SHOW_EXTRA_SPACES p) (SHOW_PERCENT_SIGN p))]
      else [])
   \<and> filter (\<lambda>i. fst i = SWAP) (fst (refresh_items P p files st)) =
     (if IS_SWAP_USAGE_ENABLE p \<and> js_gt (swTotal (fst (getMemoryInfo (meminfo files) st))) (Fin 0)
      then [(SWAP, SWAP_USAGE_TEXT p @ '' '' @
              formatUsage P
                (js_div (js_sub (swTotal (fst (getMemoryInfo (meminfo files) st)))
                                (swFree (fst (getMemoryInfo (meminfo files) st))))
                        (swTotal (fst (getMemoryInfo (meminfo files) st))))
                (SHOW_EXTRA_SPACES p) (SHOW_PERCENT_SIGN p))]
      else [])
   \<and> (total (fst (getMemoryInfo (meminfo files) st)) = Fin 0 \<longrightarrow>
        filter (\<lambda>i. fst i = MEMORY) (fst (refresh_items P p files st)) = [])
   \<and> (swTotal (fst (getMemoryInfo (meminfo files) st)) = Fin 0 \<longrightarrow>
        filter (\<lambda>i. fst i = SWAP) (fst (refresh_items P p files st)) = [])
   \<and> (indicator st \<noteq> None \<longrightarrow>
        indicator (snd (refresh P p files st)) =
          Some (join (ITEM_SEPARATOR p) (map snd (fst (refresh_items P p files st)))))"
  by (simp add: refresh_items_def refresh_def items_filter_simps Let_def js_gt_def
        split: option.splits)
     (simp add: mem_items_def swap_items_def js_gt_def)

theorem ratio_reported_only_for_positive_total_witness:
  "filter (\<lambda>i. fst i = MEMORY) (fst (refresh_items plain_printer sample_prefs sample_files running_state))
     = [(MEMORY, ''M 75%'')]
   \<and> swTotal (fst (getMemoryInfo (meminfo sample_files) running_state)) = Fin 0
   \<and> filter (\<lambda>i. fst i = SWAP) (fst (refresh_items plain_printer sample_prefs sample_files running_state))
     = []
   \<and> total (fst (getMemoryInfo (meminfo (sample_files\<lparr>meminfo := Inl FileError\<rparr>)) running_state)) = Fin 0
   \<and> filter (\<lambda>i. fst i = MEMORY)
        (fst (refresh_items plain_printer sample_prefs (sample_files\<lparr>meminfo := Inl FileError\<rparr>)
               running_state))
     = []
   \<and> indicator (snd (refresh plain_printer sample_prefs sample_files running_state)) =
       Some (join '' '' (map snd (fst (refresh_items plain_printer sample_prefs sample_files running_state))))"
  using ratio_reported_only_for_positive_total
          [of plain_printer sample_prefs sample_files running_state]
        ratio_reported_only_for_positive_total
          [of plain_printer sample_prefs "sample_files\<lparr>meminfo := Inl FileError\<rparr>" running_state]
  by (simp add: getMemoryInfo_mem_table getMemoryInfo_Inl sample_facts
        js_gt_def format_samples)

section \<open>Reads that fail\<close>

















section \<open>The interface filter and the totals\<close>

text \<open>
  The pattern of the filter matches exactly the names that begin with one of the seven
  prefixes followed by at least one digit.
\<close>

lemma match_virtual_iff:
  "match_virtual iface \<longleftrightarrow>
     (\<exists>p \<in> set virtual_prefixes.
        \<exists>ds rest. ds \<noteq> [] \<and> list_all is_digit ds \<and> iface = p @ ds @ rest)"
proof -
  have "(take (length p) iface = p \<and>
          (case drop (length p) iface of [] \<Rightarrow> False | c # _ \<Rightarrow> is_digit c))
        = (\<exists>ds rest. ds \<noteq> [] \<and> list_all is_digit ds \<and> iface = p @ ds @ rest)" for p
  proof
    assume a: "take (length p) iface = p \<and>
                 (case drop (length p) iface of [] \<Rightarrow> False | c # _ \<Rightarrow> is_digit c)"
    then obtain c r where d: "drop (length p) iface = c # r" and c: "is_digit c"
      by (cases "drop (length p) iface") auto
    have "iface = p @ [c] @ r"
      using a d by (metis append_Cons append_Nil append_take_drop_id)
    with c show "\<exists>ds rest. ds \<noteq> [] \<and> list_all is_digit ds \<and> iface = p @ ds @ rest"
      by (intro exI [of _ "[c]"] exI [of _ r]) simp
  next
    assume "\<exists>ds rest. ds \<noteq> [] \<and> list_all is_digit ds \<and> iface = p @ ds @ rest"
    then obtain ds rest where ds: "ds \<noteq> []" "list_all is_digit ds" "iface = p @ ds @ rest"
      by blast
    then obtain d ds' where "ds = d # ds'" "is_digit d" by (cases ds) auto
    then show "take (length p) iface = p \<and>
                 (case drop (length p) iface of [] \<Rightarrow> False | c # _ \<Rightarrow> is_digit c)"
      using ds by simp
  qed
  then show ?thesis
    by (simp add: match_virtual_def list_ex_iff)
qed

text \<open>
  C6. The claim: on every valid table the totals are the exact sums of the received
  bytes (field 1) and the transmitted bytes (field 9) over the lines that are not
  excluded and are fully numeric. The loop does not compute them when an interface
  name has a character that is not a word character: \<open>split(/\W+/)\<close> cuts the name, the
  first piece is taken as the name and the next piece as the received bytes. On the
  line \<open>br-1a2b3c4d5e6f: 100 1 ... 200 2 ...\<close> of a Docker bridge the name seen is \<open>br\<close>,
  which the filter does not exclude, the received bytes read are
  \<open>parseInt("1a2b3c4d5e6f") = 1\<close>, and field 9 is the multicast column, 0: the line adds
  1 and 0 where the interface counted 100 and 200. With the lines of \<open>lo\<close> and of
  \<open>eth0\<close> (5000 and 7000 bytes) the totals returned and stored are 5001 and 7000. The
  line \<open>eth0.100: 7 1 ... 9 2 ...\<close> of a VLAN interface adds 100 and 0.
\<close>

theorem docker_bridge_line_miscounted:
  "split_nonword (trim docker_line) =
     [''br'', ''1a2b3c4d5e6f'', ''100'', ''1'', ''0'', ''0'', ''0'', ''0'', ''0'', ''0'',
      ''200'', ''2'', ''0'', ''0'', ''0'', ''0'', ''0'', ''0'']
   \<and> parseInt ''1a2b3c4d5e6f'' = Fin 1
   \<and> \<not> match_virtual ''br''
   \<and> net_line (Fin 5000, Fin 7000) docker_line = (Fin 5001, Fin 7000)
   \<and> net_totals docker_table = (Fin 5001, Fin 7000)
   \<and> snd (getCurrentNetSpeed (Inr docker_table) (Fin 2) running_state) =
       running_state\<lparr>lastTotalNetDownBytes := Fin 5001, lastTotalNetUpBytes := Fin 7000\<rparr>
   \<and> net_line (Fin 0, Fin 0) vlan_line = (Fin 100, Fin 0)"
proof -
  have tokens: "split_nonword (trim docker_line) =
     [''br'', ''1a2b3c4d5e6f'', ''100'', ''1'', ''0'', ''0'', ''0'', ''0'', ''0'', ''0'',
      ''200'', ''2'', ''0'', ''0'', ''0'', ''0'', ''0'', ''0'']"
    by code_simp
  have parse: "parseInt ''1a2b3c4d5e6f'' = Fin 1" "parseInt ''0'' = Fin 0"
    by code_simp+
  have name: "\<not> match_virtual ''br''" "''br'' \<noteq> ''lo''"
    by code_simp+
  have line: "net_line (Fin 5000, Fin 7000) docker_line = (Fin 5001, Fin 7000)"
    unfolding net_line_tokens tokens using parse name by (simp add: js_at_def)
  have totals: "net_totals docker_table = (Fin 5001, Fin 7000)"
    by code_simp
  have vlan: "net_line (Fin 0, Fin 0) vlan_line = (Fin 100, Fin 0)"
    by code_simp
  show ?thesis
    using tokens parse(1) name(1) line totals vlan
    by (simp add: getCurrentNetSpeed_Inr)
qed

end
